theory Spec2Isabelle
  imports Main "HOL-Library.Word"
begin

section \<open>The proxy server's run options (cmd/server/app/options/options.go)\<close>

subsection \<open>Data model\<close>

text \<open>
  Go's \<open>int\<close> fields are only compared with literals by the code modelled here, never
  added or multiplied, so they are HOL integers: no wrap-around can be observed.
  A \<open>time.Duration\<close> is its number of nanoseconds. A \<open>float32\<close> is kept as its
  IEEE-754 bit pattern; no function below reads it.
\<close>

type_synonym float32 = "32 word"

type_synonym duration = int

record ProxyRunOptions =
  ServerCert :: string
  ServerKey :: string
  ServerCaCert :: string
  ClusterCert :: string
  ClusterKey :: string
  ClusterCaCert :: string
  Mode :: string
  UdsName :: string
  DeleteUDSFile :: bool
  ServerPort :: int
  ServerBindAddress :: string
  AgentPort :: int
  AgentBindAddress :: string
  AdminPort :: int
  AdminBindAddress :: string
  HealthPort :: int
  HealthBindAddress :: string
  KeepaliveTime :: duration
  FrontendKeepaliveTime :: duration
  EnableProfiling :: bool
  EnableContentionProfiling :: bool
  ServerID :: string
  ServerCount :: int
  AgentNamespace :: string
  AgentServiceAccount :: string
  AuthenticationAudience :: string
  KubeconfigPath :: string
  KubeconfigQPS :: float32
  KubeconfigBurst :: int
  APIContentType :: string
  ProxyStrategies :: string
  CipherSuites :: "string list"
  XfrChannelSize :: int
  EnableLeaseController :: bool
  LeaseNamespace :: string
  LeaseLabel :: string
  NeedsKubernetesClient :: bool

subsection \<open>What the code reads from outside\<close>

text \<open>
  The error of \<open>os.Stat\<close>: \<open>None\<close> is Go's \<open>nil\<close>. \<open>os.IsNotExist\<close> holds of the
  does-not-exist error alone.
\<close>

datatype os_error = ErrNotExist | ErrPermission | ErrOther string

fun IsNotExist :: "os_error option \<Rightarrow> bool" where
  "IsNotExist (Some ErrNotExist) = True"
| "IsNotExist _ = False"

text \<open>The error value of a collaborator outside this file, by its message.\<close>

type_synonym go_error = string

text \<open>
  The file system, the process environment and the three collaborators of other packages
  (\<open>proxystrategies.ParseProxyStrategies\<close>, \<open>util.GetAcceptedCiphers\<close>,
  \<open>util.ParseLabels\<close>) are parameters of the model. A parser yields its error only
  (\<open>None\<close> is \<open>nil\<close>): \<open>Validate\<close> discards the parsed value.
\<close>

record env =
  Stat :: "string \<Rightarrow> os_error option"
  Getenv :: "string \<Rightarrow> string"
  NewUUID :: string
  ParseProxyStrategies :: "string \<Rightarrow> go_error option"
  GetAcceptedCiphers :: "string \<rightharpoonup> nat"
  ParseLabels :: "string \<Rightarrow> go_error option"

text \<open>
  Modelled from the spec: the two mode constants of package \<open>pkg/server\<close>, which is not
  part of the sources at hand; the spec's mode enumeration is {grpc, http-connect}, as are
  the flag's help text and the error message of \<open>Validate\<close>.
\<close>

definition ModeGRPC :: string where
  "ModeGRPC = ''grpc''"

definition ModeHTTPConnect :: string where
  "ModeHTTPConnect = ''http-connect''"

text \<open>\<open>runtime.ContentTypeProtobuf\<close> of k8s.io/apimachinery.\<close>

definition ContentTypeProtobuf :: string where
  "ContentTypeProtobuf = ''application/vnd.kubernetes.protobuf''"

subsection \<open>Validate\<close>

text \<open>One constructor for each \<open>return\<close> of an error, with the arguments of its message.\<close>

datatype error =
    ErrCheckingServerKey string "os_error option"
  | ErrServerCertEmpty string
  | ErrCheckingServerCert string "os_error option"
  | ErrServerKeyEmpty string
  | ErrCheckingServerCaCert string "os_error option"
  | ErrCheckingClusterKey string "os_error option"
  | ErrClusterCertEmpty string
  | ErrCheckingClusterCert string "os_error option"
  | ErrClusterKeyEmpty string
  | ErrCheckingClusterCaCert string "os_error option"
  | ErrMode string
  | ErrUdsServerPort int
  | ErrUdsServerKey
  | ErrUdsServerCert
  | ErrUdsServerCaCert
  | ErrEphemeralServerPort int
  | ErrEphemeralAgentPort int
  | ErrEphemeralAdminPort int
  | ErrEphemeralHealthPort int
  | ErrReservedServerPort int
  | ErrReservedAgentPort int
  | ErrReservedAdminPort int
  | ErrReservedHealthPort int
  | ErrContentionProfiling
  | ErrClusterCaCertWithAuth
  | ErrAgentNamespaceEmpty
  | ErrAgentServiceAccountEmpty
  | ErrAuthenticationAudienceEmpty
  | ErrCheckingKubeconfigPath string "os_error option"
  | ErrProxyStrategiesEmpty
  | ErrInvalidProxyStrategies go_error
  | ErrChannelSize int
  | ErrCipherSuite string
  | ErrParseLabels go_error

text \<open>
  A sequence of statements, each of which either returns an error (\<open>Some\<close>) or falls
  through to the next (\<open>None\<close>): the result is the first return.
\<close>

fun first_error :: "error option list \<Rightarrow> error option" where
  "first_error [] = None"
| "first_error (Some e # rs) = Some e"
| "first_error (None # rs) = first_error rs"

text \<open>The loop over the requested cipher suites: the first one missing from the map.\<close>

fun cipher_loop :: "(string \<rightharpoonup> nat) \<Rightarrow> string list \<Rightarrow> error option" where
  "cipher_loop acceptedCiphers [] = None"
| "cipher_loop acceptedCiphers (cipher # rest) =
     (case acceptedCiphers cipher of
        None \<Rightarrow> Some (ErrCipherSuite cipher)
      | Some _ \<Rightarrow> cipher_loop acceptedCiphers rest)"

text \<open>
  \<open>Validate\<close> (lines 203 to 345) returns the error (\<open>None\<close> is \<open>nil\<close>) and the
  options as the call leaves them: the receiver is a pointer, and the last statement writes
  to it. The list holds the top-level statements of the body in their order, one element
  for each, with the nesting of the source; a statement only reads the options and the
  environment, so the ones after the first \<open>return\<close> are not observed. The file system is
  taken not to change during the call.
\<close>

definition Validate :: "env \<Rightarrow> ProxyRunOptions \<Rightarrow> error option \<times> ProxyRunOptions" where
  "Validate e opts =
    (let usingServiceAccountAuth =
           (AgentNamespace opts \<noteq> [] \<or> AgentServiceAccount opts \<noteq> []
            \<or> AuthenticationAudience opts \<noteq> [])
     in case first_error [
       (if ServerKey opts \<noteq> [] then
          (if IsNotExist (Stat e (ServerKey opts))
           then Some (ErrCheckingServerKey (ServerKey opts) (Stat e (ServerKey opts)))
           else if ServerCert opts = [] then Some (ErrServerCertEmpty (ServerKey opts))
           else None)
        else None),
       (if ServerCert opts \<noteq> [] then
          (if IsNotExist (Stat e (ServerCert opts))
           then Some (ErrCheckingServerCert (ServerCert opts) (Stat e (ServerCert opts)))
           else if ServerKey opts = [] then Some (ErrServerKeyEmpty (ServerCert opts))
           else None)
        else None),
       (if ServerCaCert opts \<noteq> [] then
          (if IsNotExist (Stat e (ServerCaCert opts))
           then Some (ErrCheckingServerCaCert (ServerCaCert opts) (Stat e (ServerCaCert opts)))
           else None)
        else None),
       (if ClusterKey opts \<noteq> [] then
          (if IsNotExist (Stat e (ClusterKey opts))
           then Some (ErrCheckingClusterKey (ClusterKey opts) (Stat e (ClusterKey opts)))
           else if ClusterCert opts = [] then Some (ErrClusterCertEmpty (ClusterKey opts))
           else None)
        else None),
       (if ClusterCert opts \<noteq> [] then
          (if IsNotExist (Stat e (ClusterCert opts))
           then Some (ErrCheckingClusterCert (ClusterCert opts) (Stat e (ClusterCert opts)))
           else if ClusterKey opts = [] then Some (ErrClusterKeyEmpty (ClusterCert opts))
           else None)
        else None),
       (if ClusterCaCert opts \<noteq> [] then
          (if IsNotExist (Stat e (ClusterCaCert opts))
           then Some (ErrCheckingClusterCaCert (ClusterCaCert opts) (Stat e (ClusterCaCert opts)))
           else None)
        else None),
       (if Mode opts \<noteq> ModeGRPC \<and> Mode opts \<noteq> ModeHTTPConnect
        then Some (ErrMode (Mode opts)) else None),
       (if UdsName opts \<noteq> [] then
          (if ServerPort opts \<noteq> 0 then Some (ErrUdsServerPort (ServerPort opts))
           else if ServerKey opts \<noteq> [] then Some ErrUdsServerKey
           else if ServerCert opts \<noteq> [] then Some ErrUdsServerCert
           else if ServerCaCert opts \<noteq> [] then Some ErrUdsServerCaCert
           else None)
        else None),
       (if ServerPort opts > 49151 then Some (ErrEphemeralServerPort (ServerPort opts)) else None),
       (if AgentPort opts > 49151 then Some (ErrEphemeralAgentPort (AgentPort opts)) else None),
       (if AdminPort opts > 49151 then Some (ErrEphemeralAdminPort (AdminPort opts)) else None),
       (if HealthPort opts > 49151 then Some (ErrEphemeralHealthPort (HealthPort opts)) else None),
       (if ServerPort opts < 1024 then
          (if UdsName opts = [] then Some (ErrReservedServerPort (ServerPort opts)) else None)
        else None),
       (if AgentPort opts < 1024 then Some (ErrReservedAgentPort (AgentPort opts)) else None),
       (if AdminPort opts < 1024 then Some (ErrReservedAdminPort (AdminPort opts)) else None),
       (if HealthPort opts < 1024 then Some (ErrReservedHealthPort (HealthPort opts)) else None),
       (if EnableContentionProfiling opts \<and> \<not> EnableProfiling opts
        then Some ErrContentionProfiling else None),
       (if usingServiceAccountAuth then
          (if ClusterCaCert opts \<noteq> [] then Some ErrClusterCaCertWithAuth
           else if AgentNamespace opts = [] then Some ErrAgentNamespaceEmpty
           else if AgentServiceAccount opts = [] then Some ErrAgentServiceAccountEmpty
           else if AuthenticationAudience opts = [] then Some ErrAuthenticationAudienceEmpty
           else None)
        else None),
       (if KubeconfigPath opts \<noteq> [] then
          (if IsNotExist (Stat e (KubeconfigPath opts))
           then Some (ErrCheckingKubeconfigPath (KubeconfigPath opts) (Stat e (KubeconfigPath opts)))
           else None)
        else None),
       (if length (ProxyStrategies opts) = 0 then Some ErrProxyStrategiesEmpty else None),
       (case ParseProxyStrategies e (ProxyStrategies opts) of
          Some err \<Rightarrow> Some (ErrInvalidProxyStrategies err)
        | None \<Rightarrow> None),
       (if XfrChannelSize opts \<le> 0 then Some (ErrChannelSize (XfrChannelSize opts)) else None),
       (if length (CipherSuites opts) \<noteq> 0
        then cipher_loop (GetAcceptedCiphers e) (CipherSuites opts)
        else None),
       (if EnableLeaseController opts then
          (case ParseLabels e (LeaseLabel opts) of
             Some err \<Rightarrow> Some (ErrParseLabels err)
           | None \<Rightarrow> None)
        else None)]
     of
       Some err \<Rightarrow> (Some err, opts)
     | None \<Rightarrow>
         (None, opts\<lparr>NeedsKubernetesClient :=
                        (usingServiceAccountAuth \<or> EnableLeaseController opts)\<rparr>))"

subsection \<open>NewProxyRunOptions\<close>

text \<open>
  The server ID defaults to the environment variable \<open>PROXY_SERVER_ID\<close> (\<open>os.Getenv\<close>
  yields the empty string when it is unset), else to a fresh UUID; both come from the
  environment of the model. \<open>time.Hour\<close> is 3600 * 10^9 nanoseconds.
\<close>

definition defaultServerID :: "env \<Rightarrow> string" where
  "defaultServerID e =
     (let id = Getenv e ''PROXY_SERVER_ID'' in if id \<noteq> [] then id else NewUUID e)"

definition hour :: duration where
  "hour = 3600000000000"

definition NewProxyRunOptions :: "env \<Rightarrow> ProxyRunOptions" where
  "NewProxyRunOptions e = \<lparr>
     ServerCert = [],
     ServerKey = [],
     ServerCaCert = [],
     ClusterCert = [],
     ClusterKey = [],
     ClusterCaCert = [],
     Mode = ''grpc'',
     UdsName = [],
     DeleteUDSFile = True,
     ServerPort = 8090,
     ServerBindAddress = [],
     AgentPort = 8091,
     AgentBindAddress = [],
     AdminPort = 8095,
     AdminBindAddress = ''127.0.0.1'',
     HealthPort = 8092,
     HealthBindAddress = [],
     KeepaliveTime = 1 * hour,
     FrontendKeepaliveTime = 1 * hour,
     EnableProfiling = False,
     EnableContentionProfiling = False,
     ServerID = defaultServerID e,
     ServerCount = 1,
     AgentNamespace = [],
     AgentServiceAccount = [],
     AuthenticationAudience = [],
     KubeconfigPath = [],
     KubeconfigQPS = 0,
     KubeconfigBurst = 0,
     APIContentType = ContentTypeProtobuf,
     ProxyStrategies = ''default'',
     CipherSuites = [],
     XfrChannelSize = 10,
     EnableLeaseController = False,
     LeaseNamespace = ''kube-system'',
     LeaseLabel = ''k8s-app=konnectivity-server'',
     NeedsKubernetesClient = False \<rparr>"

subsection \<open>The constraints of Validate, one for each error\<close>

text \<open>
  Each constraint is the condition under which one \<open>return\<close> of \<open>Validate\<close> is reached from
  the start of its statement, with the error returned there (\<open>None\<close>: not violated).
\<close>

definition frontend_tls_constraints :: "env \<Rightarrow> ProxyRunOptions \<Rightarrow> error option list" where
  "frontend_tls_constraints e opts = [
     (if ServerKey opts \<noteq> [] \<and> IsNotExist (Stat e (ServerKey opts))
      then Some (ErrCheckingServerKey (ServerKey opts) (Stat e (ServerKey opts))) else None),
     (if ServerKey opts \<noteq> [] \<and> ServerCert opts = []
      then Some (ErrServerCertEmpty (ServerKey opts)) else None),
     (if ServerCert opts \<noteq> [] \<and> IsNotExist (Stat e (ServerCert opts))
      then Some (ErrCheckingServerCert (ServerCert opts) (Stat e (ServerCert opts))) else None),
     (if ServerCert opts \<noteq> [] \<and> ServerKey opts = []
      then Some (ErrServerKeyEmpty (ServerCert opts)) else None),
     (if ServerCaCert opts \<noteq> [] \<and> IsNotExist (Stat e (ServerCaCert opts))
      then Some (ErrCheckingServerCaCert (ServerCaCert opts) (Stat e (ServerCaCert opts)))
      else None)]"

definition backend_tls_constraints :: "env \<Rightarrow> ProxyRunOptions \<Rightarrow> error option list" where
  "backend_tls_constraints e opts = [
     (if ClusterKey opts \<noteq> [] \<and> IsNotExist (Stat e (ClusterKey opts))
      then Some (ErrCheckingClusterKey (ClusterKey opts) (Stat e (ClusterKey opts))) else None),
     (if ClusterKey opts \<noteq> [] \<and> ClusterCert opts = []
      then Some (ErrClusterCertEmpty (ClusterKey opts)) else None),
     (if ClusterCert opts \<noteq> [] \<and> IsNotExist (Stat e (ClusterCert opts))
      then Some (ErrCheckingClusterCert (ClusterCert opts) (Stat e (ClusterCert opts))) else None),
     (if ClusterCert opts \<noteq> [] \<and> ClusterKey opts = []
      then Some (ErrClusterKeyEmpty (ClusterCert opts)) else None),
     (if ClusterCaCert opts \<noteq> [] \<and> IsNotExist (Stat e (ClusterCaCert opts))
      then Some (ErrCheckingClusterCaCert (ClusterCaCert opts) (Stat e (ClusterCaCert opts)))
      else None)]"

definition mode_constraint :: "ProxyRunOptions \<Rightarrow> error option" where
  "mode_constraint opts =
     (if Mode opts \<noteq> ModeGRPC \<and> Mode opts \<noteq> ModeHTTPConnect
      then Some (ErrMode (Mode opts)) else None)"

definition uds_constraints :: "ProxyRunOptions \<Rightarrow> error option list" where
  "uds_constraints opts = [
     (if UdsName opts \<noteq> [] \<and> ServerPort opts \<noteq> 0
      then Some (ErrUdsServerPort (ServerPort opts)) else None),
     (if UdsName opts \<noteq> [] \<and> ServerKey opts \<noteq> [] then Some ErrUdsServerKey else None),
     (if UdsName opts \<noteq> [] \<and> ServerCert opts \<noteq> [] then Some ErrUdsServerCert else None),
     (if UdsName opts \<noteq> [] \<and> ServerCaCert opts \<noteq> [] then Some ErrUdsServerCaCert else None)]"

definition server_port_upper :: "ProxyRunOptions \<Rightarrow> error option" where
  "server_port_upper opts =
     (if ServerPort opts > 49151 then Some (ErrEphemeralServerPort (ServerPort opts)) else None)"

definition agent_port_upper :: "ProxyRunOptions \<Rightarrow> error option" where
  "agent_port_upper opts =
     (if AgentPort opts > 49151 then Some (ErrEphemeralAgentPort (AgentPort opts)) else None)"

definition admin_port_upper :: "ProxyRunOptions \<Rightarrow> error option" where
  "admin_port_upper opts =
     (if AdminPort opts > 49151 then Some (ErrEphemeralAdminPort (AdminPort opts)) else None)"

definition health_port_upper :: "ProxyRunOptions \<Rightarrow> error option" where
  "health_port_upper opts =
     (if HealthPort opts > 49151 then Some (ErrEphemeralHealthPort (HealthPort opts)) else None)"

definition server_port_lower :: "ProxyRunOptions \<Rightarrow> error option" where
  "server_port_lower opts =
     (if ServerPort opts < 1024 \<and> UdsName opts = []
      then Some (ErrReservedServerPort (ServerPort opts)) else None)"

definition agent_port_lower :: "ProxyRunOptions \<Rightarrow> error option" where
  "agent_port_lower opts =
     (if AgentPort opts < 1024 then Some (ErrReservedAgentPort (AgentPort opts)) else None)"

definition admin_port_lower :: "ProxyRunOptions \<Rightarrow> error option" where
  "admin_port_lower opts =
     (if AdminPort opts < 1024 then Some (ErrReservedAdminPort (AdminPort opts)) else None)"

definition health_port_lower :: "ProxyRunOptions \<Rightarrow> error option" where
  "health_port_lower opts =
     (if HealthPort opts < 1024 then Some (ErrReservedHealthPort (HealthPort opts)) else None)"

definition later_constraints :: "env \<Rightarrow> ProxyRunOptions \<Rightarrow> error option list" where
  "later_constraints e opts = [
     (if EnableContentionProfiling opts \<and> \<not> EnableProfiling opts
      then Some ErrContentionProfiling else None),
     (if (AgentNamespace opts \<noteq> [] \<or> AgentServiceAccount opts \<noteq> []
          \<or> AuthenticationAudience opts \<noteq> []) \<and> ClusterCaCert opts \<noteq> []
      then Some ErrClusterCaCertWithAuth else None),
     (if (AgentNamespace opts \<noteq> [] \<or> AgentServiceAccount opts \<noteq> []
          \<or> AuthenticationAudience opts \<noteq> []) \<and> AgentNamespace opts = []
      then Some ErrAgentNamespaceEmpty else None),
     (if (AgentNamespace opts \<noteq> [] \<or> AgentServiceAccount opts \<noteq> []
          \<or> AuthenticationAudience opts \<noteq> []) \<and> AgentServiceAccount opts = []
      then Some ErrAgentServiceAccountEmpty else None),
     (if (AgentNamespace opts \<noteq> [] \<or> AgentServiceAccount opts \<noteq> []
          \<or> AuthenticationAudience opts \<noteq> []) \<and> AuthenticationAudience opts = []
      then Some ErrAuthenticationAudienceEmpty else None),
     (if KubeconfigPath opts \<noteq> [] \<and> IsNotExist (Stat e (KubeconfigPath opts))
      then Some (ErrCheckingKubeconfigPath (KubeconfigPath opts) (Stat e (KubeconfigPath opts)))
      else None),
     (if length (ProxyStrategies opts) = 0 then Some ErrProxyStrategiesEmpty else None),
     (case ParseProxyStrategies e (ProxyStrategies opts) of
        Some err \<Rightarrow> Some (ErrInvalidProxyStrategies err)
      | None \<Rightarrow> None),
     (if XfrChannelSize opts \<le> 0 then Some (ErrChannelSize (XfrChannelSize opts)) else None),
     (if length (CipherSuites opts) \<noteq> 0
      then cipher_loop (GetAcceptedCiphers e) (CipherSuites opts)
      else None),
     (if EnableLeaseController opts then
        (case ParseLabels e (LeaseLabel opts) of
           Some err \<Rightarrow> Some (ErrParseLabels err)
         | None \<Rightarrow> None)
      else None)]"

text \<open>
  The order in which the code reaches them: the four upper bounds of the ports, then the
  four lower bounds.
\<close>

definition constraints_in_code_order :: "env \<Rightarrow> ProxyRunOptions \<Rightarrow> error option list" where
  "constraints_in_code_order e opts =
     frontend_tls_constraints e opts @ backend_tls_constraints e opts
     @ [mode_constraint opts] @ uds_constraints opts
     @ [server_port_upper opts, agent_port_upper opts, admin_port_upper opts,
        health_port_upper opts,
        server_port_lower opts, agent_port_lower opts, admin_port_lower opts,
        health_port_lower opts]
     @ later_constraints e opts"

text \<open>
  The order the specification gives: the same constraints, with both bounds of one
  listener's port before the next listener's.
\<close>

definition constraints_in_spec_order :: "env \<Rightarrow> ProxyRunOptions \<Rightarrow> error option list" where
  "constraints_in_spec_order e opts =
     frontend_tls_constraints e opts @ backend_tls_constraints e opts
     @ [mode_constraint opts] @ uds_constraints opts
     @ [server_port_upper opts, server_port_lower opts,
        agent_port_upper opts, agent_port_lower opts,
        admin_port_upper opts, admin_port_lower opts,
        health_port_upper opts, health_port_lower opts]
     @ later_constraints e opts"

subsection \<open>A concrete environment and concrete options\<close>

text \<open>
  A file system with one missing and one unreadable path, no \<open>PROXY_SERVER_ID\<close>, a strategy
  parser that knows \<open>default\<close>, one accepted cipher suite and a label parser that accepts
  the default lease label.
\<close>

definition demo_env :: env where
  "demo_env = \<lparr>
     Stat = (\<lambda>p. if p = ''/missing'' then Some ErrNotExist
                 else if p = ''/denied'' then Some ErrPermission else None),
     Getenv = (\<lambda>_. []),
     NewUUID = ''0b7f9d2e-5c1a-4e8b-9f3d-2a6c4e8b1d70'',
     ParseProxyStrategies =
       (\<lambda>s. if s = ''default'' then None else Some ''unknown proxy strategy''),
     GetAcceptedCiphers = [''TLS_AES_128_GCM_SHA256'' \<mapsto> 4865],
     ParseLabels =
       (\<lambda>s. if s = ''k8s-app=konnectivity-server'' then None else Some ''invalid label'') \<rparr>"

definition demo_opts :: ProxyRunOptions where
  "demo_opts = NewProxyRunOptions demo_env"

section \<open>Auxiliary facts\<close>

subsection \<open>Sequences of statements\<close>

lemma first_error_Cons_None:
  "first_error (r # rs) = None \<longleftrightarrow> r = None \<and> first_error rs = None"
  by (cases r) auto

lemma first_error_None_iff: "first_error rs = None \<longleftrightarrow> (\<forall>r \<in> set rs. r = None)"
  by (induction rs rule: first_error.induct) auto

lemma first_error_mem: "first_error rs = Some x \<Longrightarrow> Some x \<in> set rs"
  by (induction rs rule: first_error.induct) auto

lemma first_error_Some_iff:
  "first_error rs = Some x \<longleftrightarrow> (\<exists>i<length rs. rs ! i = Some x \<and> (\<forall>j<i. rs ! j = None))"
proof (induction rs rule: first_error.induct)
  case 1
  then show ?case by simp
next
  case (2 e rs)
  show ?case
  proof
    assume "first_error (Some e # rs) = Some x"
    then have "(Some e # rs) ! 0 = Some x \<and> (\<forall>j<0. (Some e # rs) ! j = None)" by simp
    then show "\<exists>i<length (Some e # rs).
        (Some e # rs) ! i = Some x \<and> (\<forall>j<i. (Some e # rs) ! j = None)"
      by (intro exI[of _ 0]) simp
  next
    assume "\<exists>i<length (Some e # rs).
        (Some e # rs) ! i = Some x \<and> (\<forall>j<i. (Some e # rs) ! j = None)"
    then obtain i where i: "(Some e # rs) ! i = Some x" "\<forall>j<i. (Some e # rs) ! j = None"
      by blast
    have "i = 0"
    proof (rule ccontr)
      assume "i \<noteq> 0"
      then have "0 < i" by simp
      with i(2) have "(Some e # rs) ! 0 = None" by blast
      then show False by simp
    qed
    with i(1) show "first_error (Some e # rs) = Some x" by simp
  qed
next
  case (3 rs)
  show ?case
  proof
    assume "first_error (None # rs) = Some x"
    then have "first_error rs = Some x" by simp
    with 3 obtain i where i: "i < length rs" "rs ! i = Some x" "\<forall>j<i. rs ! j = None"
      by blast
    have "\<forall>j<Suc i. (None # rs) ! j = None"
      using i(3) by (auto simp: nth_Cons split: nat.splits)
    with i(1,2) show "\<exists>i<length (None # rs).
        (None # rs) ! i = Some x \<and> (\<forall>j<i. (None # rs) ! j = None)"
      by (intro exI[of _ "Suc i"]) simp
  next
    assume "\<exists>i<length (None # rs).
        (None # rs) ! i = Some x \<and> (\<forall>j<i. (None # rs) ! j = None)"
    then obtain i where i: "i < length (None # rs)" "(None # rs) ! i = Some x"
      "\<forall>j<i. (None # rs) ! j = None" by blast
    from i(2) obtain k where k: "i = Suc k" by (cases i) auto
    from i k have "k < length rs" "rs ! k = Some x" by auto
    moreover have "\<forall>j<k. rs ! j = None"
    proof (intro allI impI)
      fix j assume "j < k"
      then have "Suc j < i" using k by simp
      with i(3) have "(None # rs) ! Suc j = None" by blast
      then show "rs ! j = None" by simp
    qed
    ultimately have "first_error rs = Some x" using 3 by blast
    then show "first_error (None # rs) = Some x" by simp
  qed
qed

lemma first_error_unroll:
  "first_error (r # rs) = (case r of Some v \<Rightarrow> Some v | None \<Rightarrow> first_error rs)"
  by (cases r) simp_all

lemma flatten_block1:
  "(if a then (if b then Some x else None) else None) = (if a \<and> b then Some x else None)"
  by simp

lemma flatten_block2:
  "(case (if a then (if b then Some x else if c then Some y else None) else None) of
      Some v \<Rightarrow> Some v | None \<Rightarrow> k)
   = (case (if a \<and> b then Some x else None) of Some v \<Rightarrow> Some v
      | None \<Rightarrow> (case (if a \<and> c then Some y else None) of Some v \<Rightarrow> Some v | None \<Rightarrow> k))"
  by simp

lemma flatten_block4:
  "(case (if a then (if b then Some x else if c then Some y else if d then Some z
                     else if g then Some w else None) else None) of
      Some v \<Rightarrow> Some v | None \<Rightarrow> k)
   = (case (if a \<and> b then Some x else None) of Some v \<Rightarrow> Some v
      | None \<Rightarrow> (case (if a \<and> c then Some y else None) of Some v \<Rightarrow> Some v
      | None \<Rightarrow> (case (if a \<and> d then Some z else None) of Some v \<Rightarrow> Some v
      | None \<Rightarrow> (case (if a \<and> g then Some w else None) of Some v \<Rightarrow> Some v
      | None \<Rightarrow> k))))"
  by simp

lemma stmt_None_simps:
  "((if b then Some x else r) = None) = (\<not> b \<and> r = None)"
  "((if b then r else None) = None) = (b \<longrightarrow> r = None)"
  "((case p of Some err \<Rightarrow> Some (f err) | None \<Rightarrow> None) = None) = (p = None)"
  by (auto split: option.splits)

lemma stmt_Some_simps:
  "(Some a = (if c then r else None)) = (c \<and> Some a = r)"
  "(Some a = (case p of Some err \<Rightarrow> Some (f err) | None \<Rightarrow> None))
     = (\<exists>err. p = Some err \<and> a = f err)"
  by (auto split: option.splits)

lemma cipher_stmt:
  "(if length cs \<noteq> 0 then cipher_loop m cs else None) = cipher_loop m cs"
  by (cases cs) simp_all

lemma cipher_loop_Some:
  "cipher_loop m cs = Some a \<Longrightarrow> \<exists>c \<in> set cs. a = ErrCipherSuite c \<and> m c = None"
  by (induction cs) (auto split: option.splits)

lemma cipher_loop_other: "(\<And>c. a \<noteq> ErrCipherSuite c) \<Longrightarrow> (Some a = cipher_loop m cs) = False"
  using cipher_loop_Some[of m cs a] by auto

lemma IsNotExist_iff: "IsNotExist x \<longleftrightarrow> x = Some ErrNotExist"
  by (cases x rule: IsNotExist.cases) simp_all

subsection \<open>Validate: when it accepts, what it leaves, which error it returns\<close>

lemma fst_Validate_case:
  "fst (case r of Some err \<Rightarrow> (Some err, a) | None \<Rightarrow> (None, b)) = r"
  by (cases r) auto

lemma Validate_accepts_iff:
  "fst (Validate e opts) = None \<longleftrightarrow>
     (ServerKey opts \<noteq> [] \<longrightarrow>
        \<not> IsNotExist (Stat e (ServerKey opts)) \<and> ServerCert opts \<noteq> []) \<and>
     (ServerCert opts \<noteq> [] \<longrightarrow>
        \<not> IsNotExist (Stat e (ServerCert opts)) \<and> ServerKey opts \<noteq> []) \<and>
     (ServerCaCert opts \<noteq> [] \<longrightarrow> \<not> IsNotExist (Stat e (ServerCaCert opts))) \<and>
     (ClusterKey opts \<noteq> [] \<longrightarrow>
        \<not> IsNotExist (Stat e (ClusterKey opts)) \<and> ClusterCert opts \<noteq> []) \<and>
     (ClusterCert opts \<noteq> [] \<longrightarrow>
        \<not> IsNotExist (Stat e (ClusterCert opts)) \<and> ClusterKey opts \<noteq> []) \<and>
     (ClusterCaCert opts \<noteq> [] \<longrightarrow> \<not> IsNotExist (Stat e (ClusterCaCert opts))) \<and>
     \<not> (Mode opts \<noteq> ModeGRPC \<and> Mode opts \<noteq> ModeHTTPConnect) \<and>
     (UdsName opts \<noteq> [] \<longrightarrow>
        ServerPort opts = 0 \<and> ServerKey opts = [] \<and> ServerCert opts = []
        \<and> ServerCaCert opts = []) \<and>
     \<not> 49151 < ServerPort opts \<and>
     \<not> 49151 < AgentPort opts \<and>
     \<not> 49151 < AdminPort opts \<and>
     \<not> 49151 < HealthPort opts \<and>
     (ServerPort opts < 1024 \<longrightarrow> UdsName opts \<noteq> []) \<and>
     \<not> AgentPort opts < 1024 \<and>
     \<not> AdminPort opts < 1024 \<and>
     \<not> HealthPort opts < 1024 \<and>
     \<not> (EnableContentionProfiling opts \<and> \<not> EnableProfiling opts) \<and>
     (AgentNamespace opts \<noteq> [] \<or> AgentServiceAccount opts \<noteq> []
        \<or> AuthenticationAudience opts \<noteq> [] \<longrightarrow>
        ClusterCaCert opts = [] \<and> AgentNamespace opts \<noteq> []
        \<and> AgentServiceAccount opts \<noteq> [] \<and> AuthenticationAudience opts \<noteq> []) \<and>
     (KubeconfigPath opts \<noteq> [] \<longrightarrow> \<not> IsNotExist (Stat e (KubeconfigPath opts))) \<and>
     length (ProxyStrategies opts) \<noteq> 0 \<and>
     ParseProxyStrategies e (ProxyStrategies opts) = None \<and>
     \<not> XfrChannelSize opts \<le> 0 \<and>
     cipher_loop (GetAcceptedCiphers e) (CipherSuites opts) = None \<and>
     (EnableLeaseController opts \<longrightarrow> ParseLabels e (LeaseLabel opts) = None)"
  unfolding Validate_def Let_def fst_Validate_case
  by (simp only: first_error_Cons_None first_error.simps(1) cipher_stmt stmt_None_simps
        option.distinct simp_thms)

lemma Validate_state:
  "snd (Validate e opts) =
     (if fst (Validate e opts) = None
      then opts\<lparr>NeedsKubernetesClient :=
             ((AgentNamespace opts \<noteq> [] \<or> AgentServiceAccount opts \<noteq> []
               \<or> AuthenticationAudience opts \<noteq> []) \<or> EnableLeaseController opts)\<rparr>
      else opts)"
  unfolding Validate_def Let_def
  by (simp split: option.split split del: if_split)

lemmas constraint_defs =
  constraints_in_code_order_def frontend_tls_constraints_def backend_tls_constraints_def
  mode_constraint_def uds_constraints_def later_constraints_def
  server_port_upper_def agent_port_upper_def admin_port_upper_def health_port_upper_def
  server_port_lower_def agent_port_lower_def admin_port_lower_def health_port_lower_def

lemma Validate_flat: "fst (Validate e opts) = first_error (constraints_in_code_order e opts)"
  unfolding Validate_def Let_def fst_Validate_case constraint_defs
  by (simp only: append.simps first_error_unroll first_error.simps(1)
        flatten_block1 flatten_block2 flatten_block4)

lemma Validate_error_mem:
  "fst (Validate e opts) = Some err \<Longrightarrow> Some err \<in> set (constraints_in_code_order e opts)"
  by (simp add: Validate_flat first_error_mem)

lemmas demo_defs = demo_opts_def NewProxyRunOptions_def demo_env_def ModeGRPC_def
  ModeHTTPConnect_def

lemma demo_opts_accepted: "fst (Validate demo_env demo_opts) = None"
  by (simp add: Validate_accepts_iff demo_defs)

section \<open>The claims\<close>

text \<open>
  C1, as the code has it. Take options that \<open>Validate\<close> accepts and change one port to
  \<open>p\<close>. For the agent, admin and health port the result is accepted exactly when
  \<open>1024 \<le> p \<le> 49151\<close>: 1023 and 0 are rejected, 1024 and 49151 are accepted, 49152 is
  rejected. The same holds of the server port when the UDS name is empty; when the UDS name
  is set, the server port is accepted exactly when it is 0.
\<close>

theorem Validate_port_ranges:
  assumes "fst (Validate e opts) = None"
  shows "(fst (Validate e (opts\<lparr>ServerPort := p\<rparr>)) = None
            \<longleftrightarrow> (if UdsName opts = [] then 1024 \<le> p \<and> p \<le> 49151 else p = 0))
       \<and> (fst (Validate e (opts\<lparr>AgentPort := p\<rparr>)) = None \<longleftrightarrow> 1024 \<le> p \<and> p \<le> 49151)
       \<and> (fst (Validate e (opts\<lparr>AdminPort := p\<rparr>)) = None \<longleftrightarrow> 1024 \<le> p \<and> p \<le> 49151)
       \<and> (fst (Validate e (opts\<lparr>HealthPort := p\<rparr>)) = None \<longleftrightarrow> 1024 \<le> p \<and> p \<le> 49151)"
proof -
  have agent: "fst (Validate e (opts\<lparr>AgentPort := p\<rparr>)) = None \<longleftrightarrow> 1024 \<le> p \<and> p \<le> 49151"
    using assms by (simp add: Validate_accepts_iff not_less not_le; blast)
  have admin: "fst (Validate e (opts\<lparr>AdminPort := p\<rparr>)) = None \<longleftrightarrow> 1024 \<le> p \<and> p \<le> 49151"
    using assms by (simp add: Validate_accepts_iff not_less not_le; blast)
  have health: "fst (Validate e (opts\<lparr>HealthPort := p\<rparr>)) = None \<longleftrightarrow> 1024 \<le> p \<and> p \<le> 49151"
    using assms by (simp add: Validate_accepts_iff not_less not_le; blast)
  have server: "fst (Validate e (opts\<lparr>ServerPort := p\<rparr>)) = None
      \<longleftrightarrow> (if UdsName opts = [] then 1024 \<le> p \<and> p \<le> 49151 else p = 0)"
  proof (cases "UdsName opts = []")
    case True
    with assms show ?thesis
      by (simp add: Validate_accepts_iff not_less not_le; blast)
  next
    case False
    with assms have port: "ServerPort opts = 0"
      by (simp add: Validate_accepts_iff)
    have "fst (Validate e (opts\<lparr>ServerPort := p\<rparr>)) = None \<longleftrightarrow> p = 0"
    proof
      assume "fst (Validate e (opts\<lparr>ServerPort := p\<rparr>)) = None"
      with False show "p = 0" by (simp add: Validate_accepts_iff)
    next
      assume "p = 0"
      with port have "opts\<lparr>ServerPort := p\<rparr> = opts" by simp
      with assms show "fst (Validate e (opts\<lparr>ServerPort := p\<rparr>)) = None" by simp
    qed
    with False show ?thesis by simp
  qed
  from server agent admin health show ?thesis by blast
qed

theorem Validate_port_ranges_witness:
  "fst (Validate demo_env demo_opts) = None
   \<and> fst (Validate demo_env (demo_opts\<lparr>ServerPort := 1024\<rparr>)) = None
   \<and> fst (Validate demo_env (demo_opts\<lparr>AgentPort := 49151\<rparr>)) = None
   \<and> fst (Validate demo_env (demo_opts\<lparr>AdminPort := 49152\<rparr>)) \<noteq> None
   \<and> fst (Validate demo_env (demo_opts\<lparr>HealthPort := 0\<rparr>)) \<noteq> None"
proof -
  have u: "UdsName demo_opts = []" by (simp add: demo_defs)
  show ?thesis
    using demo_opts_accepted u
      Validate_port_ranges [OF demo_opts_accepted, of 1024]
      Validate_port_ranges [OF demo_opts_accepted, of 49151]
      Validate_port_ranges [OF demo_opts_accepted, of 49152]
      Validate_port_ranges [OF demo_opts_accepted, of 0]
    by simp
qed

text \<open>
  C1 as stated fails: the claim has a port of exactly 1024 rejected, and the default options
  with the agent port set to 1024 are accepted (the code rejects a port \<open>< 1024\<close>).
\<close>

theorem port_1024_accepted:
  "fst (Validate demo_env (demo_opts\<lparr>AgentPort := 1024\<rparr>)) = None"
  by (simp add: Validate_accepts_iff demo_defs)

text \<open>
  C2, as the code has it. The error \<open>Validate\<close> returns is that of the first violated
  constraint in the order of \<open>constraints_in_code_order\<close>: frontend TLS, backend TLS, mode,
  UDS exclusivity, the upper bound of the server, agent, admin and health port, then the
  lower bound of the server, agent, admin and health port, profiling, service-account
  authentication, kubeconfig, proxy strategies, channel size, cipher suites, lease label.
  It returns no error exactly when no constraint is violated.
\<close>

theorem Validate_first_violated_in_code_order:
  "(fst (Validate e opts) = Some err \<longleftrightarrow>
      (\<exists>i<length (constraints_in_code_order e opts).
         constraints_in_code_order e opts ! i = Some err
         \<and> (\<forall>j<i. constraints_in_code_order e opts ! j = None)))
   \<and> (fst (Validate e opts) = None \<longleftrightarrow>
        (\<forall>c \<in> set (constraints_in_code_order e opts). c = None))"
  by (simp only: Validate_flat first_error_Some_iff first_error_None_iff simp_thms)

theorem Validate_first_violated_in_code_order_witness:
  "\<exists>i<length (constraints_in_code_order demo_env (demo_opts\<lparr>ServerPort := 80, AgentPort := 50000\<rparr>)).
      constraints_in_code_order demo_env (demo_opts\<lparr>ServerPort := 80, AgentPort := 50000\<rparr>) ! i
        = Some (ErrEphemeralAgentPort 50000)
      \<and> (\<forall>j<i. constraints_in_code_order demo_env
                  (demo_opts\<lparr>ServerPort := 80, AgentPort := 50000\<rparr>) ! j = None)"
proof -
  have "fst (Validate demo_env (demo_opts\<lparr>ServerPort := 80, AgentPort := 50000\<rparr>))
          = Some (ErrEphemeralAgentPort 50000)"
    by (simp add: Validate_flat constraint_defs demo_defs)
  with Validate_first_violated_in_code_order
         [of demo_env "demo_opts\<lparr>ServerPort := 80, AgentPort := 50000\<rparr>"
             "ErrEphemeralAgentPort 50000"]
  show ?thesis by blast
qed

text \<open>
  C2 as stated fails: with a server port below 1024 and an agent port above 49151 the
  order of the claim (the whole range check of the server port before the agent port's)
  gives the server port's error, and \<open>Validate\<close> returns the agent port's.
\<close>

theorem per_listener_order_fails:
  "fst (Validate demo_env (demo_opts\<lparr>ServerPort := 80, AgentPort := 50000\<rparr>))
     = Some (ErrEphemeralAgentPort 50000)
   \<and> first_error (constraints_in_spec_order demo_env
        (demo_opts\<lparr>ServerPort := 80, AgentPort := 50000\<rparr>))
     = Some (ErrReservedServerPort 80)
   \<and> fst (Validate demo_env (demo_opts\<lparr>ServerPort := 80, AgentPort := 50000\<rparr>))
     \<noteq> first_error (constraints_in_spec_order demo_env
        (demo_opts\<lparr>ServerPort := 80, AgentPort := 50000\<rparr>))"
  by (simp add: Validate_flat constraint_defs constraints_in_spec_order_def demo_defs)

text \<open>
  C3. With a non-empty UDS name, \<open>Validate\<close> fails unless the server port is 0 and the
  server cert, server key and server CA cert are all empty.
\<close>

theorem Validate_uds_exclusive:
  assumes "UdsName opts \<noteq> []"
    and "\<not> (ServerPort opts = 0 \<and> ServerCert opts = [] \<and> ServerKey opts = []
             \<and> ServerCaCert opts = [])"
  shows "fst (Validate e opts) \<noteq> None"
proof
  assume "fst (Validate e opts) = None"
  then have "UdsName opts \<noteq> [] \<longrightarrow>
      ServerPort opts = 0 \<and> ServerKey opts = [] \<and> ServerCert opts = []
      \<and> ServerCaCert opts = []"
    unfolding Validate_accepts_iff by blast
  with assms show False by blast
qed

theorem Validate_uds_exclusive_witness:
  "UdsName (demo_opts\<lparr>UdsName := ''/var/run/konnectivity.sock''\<rparr>) \<noteq> []
   \<and> ServerPort (demo_opts\<lparr>UdsName := ''/var/run/konnectivity.sock''\<rparr>) = 8090
   \<and> fst (Validate demo_env (demo_opts\<lparr>UdsName := ''/var/run/konnectivity.sock''\<rparr>)) \<noteq> None"
  using Validate_uds_exclusive
          [of "demo_opts\<lparr>UdsName := ''/var/run/konnectivity.sock''\<rparr>" demo_env]
  by (simp add: demo_defs)

text \<open>
  C4. If exactly one of the cert and the key of a role (frontend: server cert and key,
  backend: cluster cert and key) is set, \<open>Validate\<close> fails, whether or not the one that is
  set names an existing file. If both are set or both are empty, \<open>Validate\<close> does not
  return that role's pairing error, whatever else it returns.
\<close>

theorem Validate_tls_pairing:
  "((ServerKey opts = []) \<noteq> (ServerCert opts = [])
      \<or> (ClusterKey opts = []) \<noteq> (ClusterCert opts = [])
      \<longrightarrow> fst (Validate e opts) \<noteq> None)
   \<and> ((ServerKey opts = []) = (ServerCert opts = [])
      \<longrightarrow> fst (Validate e opts) \<noteq> Some (ErrServerCertEmpty p)
          \<and> fst (Validate e opts) \<noteq> Some (ErrServerKeyEmpty p))
   \<and> ((ClusterKey opts = []) = (ClusterCert opts = [])
      \<longrightarrow> fst (Validate e opts) \<noteq> Some (ErrClusterCertEmpty p)
          \<and> fst (Validate e opts) \<noteq> Some (ErrClusterKeyEmpty p))"
proof (intro conjI impI)
  assume xor: "(ServerKey opts = []) \<noteq> (ServerCert opts = [])
      \<or> (ClusterKey opts = []) \<noteq> (ClusterCert opts = [])"
  show "fst (Validate e opts) \<noteq> None"
  proof
    assume "fst (Validate e opts) = None"
    then have "(ServerKey opts \<noteq> [] \<longrightarrow> ServerCert opts \<noteq> [])
        \<and> (ServerCert opts \<noteq> [] \<longrightarrow> ServerKey opts \<noteq> [])
        \<and> (ClusterKey opts \<noteq> [] \<longrightarrow> ClusterCert opts \<noteq> [])
        \<and> (ClusterCert opts \<noteq> [] \<longrightarrow> ClusterKey opts \<noteq> [])"
      unfolding Validate_accepts_iff by blast
    with xor show False by blast
  qed
next
  assume both: "(ServerKey opts = []) = (ServerCert opts = [])"
  show "fst (Validate e opts) \<noteq> Some (ErrServerCertEmpty p)"
  proof
    assume "fst (Validate e opts) = Some (ErrServerCertEmpty p)"
    from Validate_error_mem [OF this] both show False
      by (simp add: constraint_defs stmt_Some_simps cipher_loop_other)
  qed
  show "fst (Validate e opts) \<noteq> Some (ErrServerKeyEmpty p)"
  proof
    assume "fst (Validate e opts) = Some (ErrServerKeyEmpty p)"
    from Validate_error_mem [OF this] both show False
      by (simp add: constraint_defs stmt_Some_simps cipher_loop_other)
  qed
next
  assume both: "(ClusterKey opts = []) = (ClusterCert opts = [])"
  show "fst (Validate e opts) \<noteq> Some (ErrClusterCertEmpty p)"
  proof
    assume "fst (Validate e opts) = Some (ErrClusterCertEmpty p)"
    from Validate_error_mem [OF this] both show False
      by (simp add: constraint_defs stmt_Some_simps cipher_loop_other)
  qed
  show "fst (Validate e opts) \<noteq> Some (ErrClusterKeyEmpty p)"
  proof
    assume "fst (Validate e opts) = Some (ErrClusterKeyEmpty p)"
    from Validate_error_mem [OF this] both show False
      by (simp add: constraint_defs stmt_Some_simps cipher_loop_other)
  qed
qed

theorem Validate_tls_pairing_witness:
  "fst (Validate demo_env (demo_opts\<lparr>ServerKey := ''/etc/tls/server.key''\<rparr>)) \<noteq> None
   \<and> fst (Validate demo_env (demo_opts\<lparr>ClusterCert := ''/etc/tls/cluster.crt''\<rparr>)) \<noteq> None
   \<and> fst (Validate demo_env
        (demo_opts\<lparr>ServerKey := ''/etc/tls/server.key'', ServerCert := ''/etc/tls/server.crt'',
                    HealthPort := 80\<rparr>))
       \<noteq> Some (ErrServerCertEmpty ''/etc/tls/server.key'')
   \<and> fst (Validate demo_env
        (demo_opts\<lparr>ClusterKey := ''/etc/tls/cluster.key'', ClusterCert := ''/etc/tls/cluster.crt'',
                    HealthPort := 80\<rparr>))
       \<noteq> Some (ErrClusterKeyEmpty ''/etc/tls/cluster.crt'')"
  using
    Validate_tls_pairing [of "demo_opts\<lparr>ServerKey := ''/etc/tls/server.key''\<rparr>" demo_env]
    Validate_tls_pairing [of "demo_opts\<lparr>ClusterCert := ''/etc/tls/cluster.crt''\<rparr>" demo_env]
    Validate_tls_pairing
      [of "demo_opts\<lparr>ServerKey := ''/etc/tls/server.key'', ServerCert := ''/etc/tls/server.crt'',
                      HealthPort := 80\<rparr>" demo_env "''/etc/tls/server.key''"]
    Validate_tls_pairing
      [of "demo_opts\<lparr>ClusterKey := ''/etc/tls/cluster.key'',
                      ClusterCert := ''/etc/tls/cluster.crt'', HealthPort := 80\<rparr>"
          demo_env "''/etc/tls/cluster.crt''"]
  by (simp add: demo_defs)

text \<open>
  C5. If one or two of agent namespace, agent service account and authentication audience
  are non-empty and the rest empty, \<open>Validate\<close> fails; if all three are non-empty and the
  cluster CA cert is non-empty, \<open>Validate\<close> fails.
\<close>

theorem Validate_service_account_auth:
  assumes "((AgentNamespace opts \<noteq> [] \<or> AgentServiceAccount opts \<noteq> []
              \<or> AuthenticationAudience opts \<noteq> [])
            \<and> (AgentNamespace opts = [] \<or> AgentServiceAccount opts = []
              \<or> AuthenticationAudience opts = []))
         \<or> (AgentNamespace opts \<noteq> [] \<and> AgentServiceAccount opts \<noteq> []
              \<and> AuthenticationAudience opts \<noteq> [] \<and> ClusterCaCert opts \<noteq> [])"
  shows "fst (Validate e opts) \<noteq> None"
proof
  assume "fst (Validate e opts) = None"
  then have "AgentNamespace opts \<noteq> [] \<or> AgentServiceAccount opts \<noteq> []
        \<or> AuthenticationAudience opts \<noteq> [] \<longrightarrow>
      ClusterCaCert opts = [] \<and> AgentNamespace opts \<noteq> []
        \<and> AgentServiceAccount opts \<noteq> [] \<and> AuthenticationAudience opts \<noteq> []"
    unfolding Validate_accepts_iff by blast
  with assms show False by blast
qed

theorem Validate_service_account_auth_witness:
  "fst (Validate demo_env (demo_opts\<lparr>AgentNamespace := ''kube-system''\<rparr>)) \<noteq> None
   \<and> fst (Validate demo_env
        (demo_opts\<lparr>AgentServiceAccount := ''konnectivity-agent'',
                    AuthenticationAudience := ''system:konnectivity-server''\<rparr>)) \<noteq> None
   \<and> fst (Validate demo_env
        (demo_opts\<lparr>AgentNamespace := ''kube-system'',
                    AgentServiceAccount := ''konnectivity-agent'',
                    AuthenticationAudience := ''system:konnectivity-server'',
                    ClusterCaCert := ''/etc/tls/ca.crt''\<rparr>)) \<noteq> None"
  using
    Validate_service_account_auth [of "demo_opts\<lparr>AgentNamespace := ''kube-system''\<rparr>" demo_env]
    Validate_service_account_auth
      [of "demo_opts\<lparr>AgentServiceAccount := ''konnectivity-agent'',
                      AuthenticationAudience := ''system:konnectivity-server''\<rparr>" demo_env]
    Validate_service_account_auth
      [of "demo_opts\<lparr>AgentNamespace := ''kube-system'',
                      AgentServiceAccount := ''konnectivity-agent'',
                      AuthenticationAudience := ''system:konnectivity-server'',
                      ClusterCaCert := ''/etc/tls/ca.crt''\<rparr>" demo_env]
  by (simp add: demo_defs)

text \<open>
  C6. When \<open>Validate\<close> returns no error, the options it leaves are the ones it was given
  with \<open>NeedsKubernetesClient\<close> set to (service-account authentication in use) or (lease
  controller enabled), and nothing else changed; service-account authentication is in use
  when any of namespace, service account and audience is non-empty, which on success means
  all three are.
\<close>

theorem Validate_sets_NeedsKubernetesClient:
  assumes "fst (Validate e opts) = None"
  shows "snd (Validate e opts) =
           opts\<lparr>NeedsKubernetesClient :=
             ((AgentNamespace opts \<noteq> [] \<or> AgentServiceAccount opts \<noteq> []
               \<or> AuthenticationAudience opts \<noteq> []) \<or> EnableLeaseController opts)\<rparr>
       \<and> NeedsKubernetesClient (snd (Validate e opts)) =
           ((AgentNamespace opts \<noteq> [] \<and> AgentServiceAccount opts \<noteq> []
             \<and> AuthenticationAudience opts \<noteq> []) \<or> EnableLeaseController opts)"
proof -
  from assms have st: "snd (Validate e opts) =
      opts\<lparr>NeedsKubernetesClient :=
        ((AgentNamespace opts \<noteq> [] \<or> AgentServiceAccount opts \<noteq> []
          \<or> AuthenticationAudience opts \<noteq> []) \<or> EnableLeaseController opts)\<rparr>"
    by (simp add: Validate_state)
  from assms have all3: "AgentNamespace opts \<noteq> [] \<or> AgentServiceAccount opts \<noteq> []
        \<or> AuthenticationAudience opts \<noteq> [] \<longrightarrow>
      ClusterCaCert opts = [] \<and> AgentNamespace opts \<noteq> []
        \<and> AgentServiceAccount opts \<noteq> [] \<and> AuthenticationAudience opts \<noteq> []"
    unfolding Validate_accepts_iff by blast
  have "NeedsKubernetesClient (snd (Validate e opts)) =
      ((AgentNamespace opts \<noteq> [] \<or> AgentServiceAccount opts \<noteq> []
        \<or> AuthenticationAudience opts \<noteq> []) \<or> EnableLeaseController opts)"
    by (simp add: st)
  with all3 have nk: "NeedsKubernetesClient (snd (Validate e opts)) =
      ((AgentNamespace opts \<noteq> [] \<and> AgentServiceAccount opts \<noteq> []
        \<and> AuthenticationAudience opts \<noteq> []) \<or> EnableLeaseController opts)"
    by blast
  from st nk show ?thesis by (rule conjI)
qed

theorem Validate_sets_NeedsKubernetesClient_witness:
  "fst (Validate demo_env
        (demo_opts\<lparr>AgentNamespace := ''kube-system'',
                    AgentServiceAccount := ''konnectivity-agent'',
                    AuthenticationAudience := ''system:konnectivity-server''\<rparr>)) = None
   \<and> snd (Validate demo_env
        (demo_opts\<lparr>AgentNamespace := ''kube-system'',
                    AgentServiceAccount := ''konnectivity-agent'',
                    AuthenticationAudience := ''system:konnectivity-server''\<rparr>))
     = demo_opts\<lparr>AgentNamespace := ''kube-system'',
                  AgentServiceAccount := ''konnectivity-agent'',
                  AuthenticationAudience := ''system:konnectivity-server'',
                  NeedsKubernetesClient := True\<rparr>"
proof -
  have acc: "fst (Validate demo_env
        (demo_opts\<lparr>AgentNamespace := ''kube-system'',
                    AgentServiceAccount := ''konnectivity-agent'',
                    AuthenticationAudience := ''system:konnectivity-server''\<rparr>)) = None"
    by (simp add: Validate_accepts_iff demo_defs)
  from acc Validate_sets_NeedsKubernetesClient [OF acc] show ?thesis
    by simp
qed

text \<open>
  C7. The options built by \<open>NewProxyRunOptions\<close> (mode grpc, server, agent, health and
  admin port 8090, 8091, 8092 and 8095, no TLS path, no authentication field, no UDS name,
  proxy strategies \<open>default\<close>, channel size 10, no cipher suite, lease controller disabled)
  pass \<open>Validate\<close>, which leaves \<open>NeedsKubernetesClient\<close> false, given that the strategy
  parser of package \<open>proxystrategies\<close> accepts \<open>default\<close>.
\<close>

theorem NewProxyRunOptions_valid:
  assumes "ParseProxyStrategies e ''default'' = None"
  shows "Validate e (NewProxyRunOptions e) = (None, NewProxyRunOptions e)
       \<and> \<not> NeedsKubernetesClient (snd (Validate e (NewProxyRunOptions e)))
       \<and> Mode (NewProxyRunOptions e) = ''grpc''
       \<and> ServerPort (NewProxyRunOptions e) = 8090
       \<and> AgentPort (NewProxyRunOptions e) = 8091
       \<and> HealthPort (NewProxyRunOptions e) = 8092
       \<and> AdminPort (NewProxyRunOptions e) = 8095
       \<and> ServerCert (NewProxyRunOptions e) = [] \<and> ServerKey (NewProxyRunOptions e) = []
       \<and> ServerCaCert (NewProxyRunOptions e) = []
       \<and> ClusterCert (NewProxyRunOptions e) = [] \<and> ClusterKey (NewProxyRunOptions e) = []
       \<and> ClusterCaCert (NewProxyRunOptions e) = []
       \<and> AgentNamespace (NewProxyRunOptions e) = []
       \<and> AgentServiceAccount (NewProxyRunOptions e) = []
       \<and> AuthenticationAudience (NewProxyRunOptions e) = []
       \<and> UdsName (NewProxyRunOptions e) = []
       \<and> ProxyStrategies (NewProxyRunOptions e) = ''default''
       \<and> XfrChannelSize (NewProxyRunOptions e) = 10
       \<and> CipherSuites (NewProxyRunOptions e) = []
       \<and> \<not> EnableLeaseController (NewProxyRunOptions e)"
proof -
  have acc: "fst (Validate e (NewProxyRunOptions e)) = None"
    using assms by (simp add: Validate_accepts_iff NewProxyRunOptions_def ModeGRPC_def)
  have st: "snd (Validate e (NewProxyRunOptions e)) = NewProxyRunOptions e"
    by (simp add: Validate_state acc) (simp add: NewProxyRunOptions_def)
  have res: "Validate e (NewProxyRunOptions e) = (None, NewProxyRunOptions e)"
    using acc st by (simp add: prod_eq_iff)
  have flag: "\<not> NeedsKubernetesClient (snd (Validate e (NewProxyRunOptions e)))"
    by (simp add: st) (simp add: NewProxyRunOptions_def)
  have fields: "Mode (NewProxyRunOptions e) = ''grpc''
       \<and> ServerPort (NewProxyRunOptions e) = 8090
       \<and> AgentPort (NewProxyRunOptions e) = 8091
       \<and> HealthPort (NewProxyRunOptions e) = 8092
       \<and> AdminPort (NewProxyRunOptions e) = 8095
       \<and> ServerCert (NewProxyRunOptions e) = [] \<and> ServerKey (NewProxyRunOptions e) = []
       \<and> ServerCaCert (NewProxyRunOptions e) = []
       \<and> ClusterCert (NewProxyRunOptions e) = [] \<and> ClusterKey (NewProxyRunOptions e) = []
       \<and> ClusterCaCert (NewProxyRunOptions e) = []
       \<and> AgentNamespace (NewProxyRunOptions e) = []
       \<and> AgentServiceAccount (NewProxyRunOptions e) = []
       \<and> AuthenticationAudience (NewProxyRunOptions e) = []
       \<and> UdsName (NewProxyRunOptions e) = []
       \<and> ProxyStrategies (NewProxyRunOptions e) = ''default''
       \<and> XfrChannelSize (NewProxyRunOptions e) = 10
       \<and> CipherSuites (NewProxyRunOptions e) = []
       \<and> \<not> EnableLeaseController (NewProxyRunOptions e)"
    by (simp add: NewProxyRunOptions_def)
  from res flag fields show ?thesis by (intro conjI) blast+
qed

theorem NewProxyRunOptions_valid_witness:
  "ParseProxyStrategies demo_env ''default'' = None
   \<and> Validate demo_env (NewProxyRunOptions demo_env) = (None, NewProxyRunOptions demo_env)"
proof -
  have h: "ParseProxyStrategies demo_env ''default'' = None"
    by (simp add: demo_env_def)
  from h NewProxyRunOptions_valid [OF h] show ?thesis by blast
qed

text \<open>
  C8. When \<open>Validate\<close> returns an error, the options are left as they were given, the
  field \<open>NeedsKubernetesClient\<close> included.
\<close>

theorem Validate_error_leaves_options:
  assumes "fst (Validate e opts) \<noteq> None"
  shows "snd (Validate e opts) = opts
       \<and> NeedsKubernetesClient (snd (Validate e opts)) = NeedsKubernetesClient opts"
proof -
  from assms have "snd (Validate e opts) = opts"
    by (simp only: Validate_state if_False)
  then show ?thesis by simp
qed

theorem Validate_error_leaves_options_witness:
  "fst (Validate demo_env (demo_opts\<lparr>EnableLeaseController := True, LeaseLabel := ''=''\<rparr>))
     = Some (ErrParseLabels ''invalid label'')
   \<and> snd (Validate demo_env (demo_opts\<lparr>EnableLeaseController := True, LeaseLabel := ''=''\<rparr>))
     = demo_opts\<lparr>EnableLeaseController := True, LeaseLabel := ''=''\<rparr>
   \<and> \<not> NeedsKubernetesClient
         (snd (Validate demo_env
                 (demo_opts\<lparr>EnableLeaseController := True, LeaseLabel := ''=''\<rparr>)))"
proof -
  have err: "fst (Validate demo_env
        (demo_opts\<lparr>EnableLeaseController := True, LeaseLabel := ''=''\<rparr>))
     = Some (ErrParseLabels ''invalid label'')"
    by (simp add: Validate_flat constraint_defs demo_defs)
  then have "fst (Validate demo_env
        (demo_opts\<lparr>EnableLeaseController := True, LeaseLabel := ''=''\<rparr>)) \<noteq> None"
    by simp
  from Validate_error_leaves_options [OF this] err show ?thesis
    by (simp add: demo_defs)
qed

text \<open>
  C9. Each of the seven file checks of \<open>Validate\<close> (server key, server cert, server CA
  cert, cluster key, cluster cert, cluster CA cert, kubeconfig path) returns its error only
  for the path of its own field and only when the error of \<open>os.Stat\<close> on that path is the
  does-not-exist error: a path whose stat fails in another way, or succeeds, passes.
\<close>

theorem Validate_file_checks_fail_on_not_exist_only:
  assumes "fst (Validate e opts) = Some err"
  shows "(err = ErrCheckingServerKey p x \<longrightarrow>
            p = ServerKey opts \<and> x = Stat e p \<and> Stat e p = Some ErrNotExist)
       \<and> (err = ErrCheckingServerCert p x \<longrightarrow>
            p = ServerCert opts \<and> x = Stat e p \<and> Stat e p = Some ErrNotExist)
       \<and> (err = ErrCheckingServerCaCert p x \<longrightarrow>
            p = ServerCaCert opts \<and> x = Stat e p \<and> Stat e p = Some ErrNotExist)
       \<and> (err = ErrCheckingClusterKey p x \<longrightarrow>
            p = ClusterKey opts \<and> x = Stat e p \<and> Stat e p = Some ErrNotExist)
       \<and> (err = ErrCheckingClusterCert p x \<longrightarrow>
            p = ClusterCert opts \<and> x = Stat e p \<and> Stat e p = Some ErrNotExist)
       \<and> (err = ErrCheckingClusterCaCert p x \<longrightarrow>
            p = ClusterCaCert opts \<and> x = Stat e p \<and> Stat e p = Some ErrNotExist)
       \<and> (err = ErrCheckingKubeconfigPath p x \<longrightarrow>
            p = KubeconfigPath opts \<and> x = Stat e p \<and> Stat e p = Some ErrNotExist)"
proof -
  note mem = Validate_error_mem [OF assms]
  have k1: "err = ErrCheckingServerKey p x \<longrightarrow>
      p = ServerKey opts \<and> x = Stat e p \<and> Stat e p = Some ErrNotExist"
    using mem
    by (auto simp add: constraint_defs stmt_Some_simps cipher_loop_other IsNotExist_iff)
  have k2: "err = ErrCheckingServerCert p x \<longrightarrow>
      p = ServerCert opts \<and> x = Stat e p \<and> Stat e p = Some ErrNotExist"
    using mem
    by (auto simp add: constraint_defs stmt_Some_simps cipher_loop_other IsNotExist_iff)
  have k3: "err = ErrCheckingServerCaCert p x \<longrightarrow>
      p = ServerCaCert opts \<and> x = Stat e p \<and> Stat e p = Some ErrNotExist"
    using mem
    by (auto simp add: constraint_defs stmt_Some_simps cipher_loop_other IsNotExist_iff)
  have k4: "err = ErrCheckingClusterKey p x \<longrightarrow>
      p = ClusterKey opts \<and> x = Stat e p \<and> Stat e p = Some ErrNotExist"
    using mem
    by (auto simp add: constraint_defs stmt_Some_simps cipher_loop_other IsNotExist_iff)
  have k5: "err = ErrCheckingClusterCert p x \<longrightarrow>
      p = ClusterCert opts \<and> x = Stat e p \<and> Stat e p = Some ErrNotExist"
    using mem
    by (auto simp add: constraint_defs stmt_Some_simps cipher_loop_other IsNotExist_iff)
  have k6: "err = ErrCheckingClusterCaCert p x \<longrightarrow>
      p = ClusterCaCert opts \<and> x = Stat e p \<and> Stat e p = Some ErrNotExist"
    using mem
    by (auto simp add: constraint_defs stmt_Some_simps cipher_loop_other IsNotExist_iff)
  have k7: "err = ErrCheckingKubeconfigPath p x \<longrightarrow>
      p = KubeconfigPath opts \<and> x = Stat e p \<and> Stat e p = Some ErrNotExist"
    using mem
    by (auto simp add: constraint_defs stmt_Some_simps cipher_loop_other IsNotExist_iff)
  from k1 k2 k3 k4 k5 k6 k7 show ?thesis by (intro conjI)
qed

theorem Validate_file_checks_fail_on_not_exist_only_witness:
  "fst (Validate demo_env (demo_opts\<lparr>ServerKey := ''/missing''\<rparr>))
     = Some (ErrCheckingServerKey ''/missing'' (Some ErrNotExist))
   \<and> fst (Validate demo_env (demo_opts\<lparr>ServerKey := ''/ok'', ServerCert := ''/missing''\<rparr>))
     = Some (ErrCheckingServerCert ''/missing'' (Some ErrNotExist))
   \<and> fst (Validate demo_env (demo_opts\<lparr>ServerCaCert := ''/missing''\<rparr>))
     = Some (ErrCheckingServerCaCert ''/missing'' (Some ErrNotExist))
   \<and> fst (Validate demo_env (demo_opts\<lparr>ClusterKey := ''/missing''\<rparr>))
     = Some (ErrCheckingClusterKey ''/missing'' (Some ErrNotExist))
   \<and> fst (Validate demo_env (demo_opts\<lparr>ClusterKey := ''/ok'', ClusterCert := ''/missing''\<rparr>))
     = Some (ErrCheckingClusterCert ''/missing'' (Some ErrNotExist))
   \<and> fst (Validate demo_env (demo_opts\<lparr>ClusterCaCert := ''/missing''\<rparr>))
     = Some (ErrCheckingClusterCaCert ''/missing'' (Some ErrNotExist))
   \<and> fst (Validate demo_env (demo_opts\<lparr>KubeconfigPath := ''/missing''\<rparr>))
     = Some (ErrCheckingKubeconfigPath ''/missing'' (Some ErrNotExist))
   \<and> Stat demo_env ''/missing'' = Some ErrNotExist
   \<and> Stat demo_env ''/denied'' = Some ErrPermission
   \<and> fst (Validate demo_env
        (demo_opts\<lparr>ServerKey := ''/denied'', ServerCert := ''/denied'',
                    ServerCaCert := ''/denied'', ClusterKey := ''/denied'',
                    ClusterCert := ''/denied'', ClusterCaCert := ''/denied'',
                    KubeconfigPath := ''/denied''\<rparr>)) = None"
proof -
  have e1: "fst (Validate demo_env (demo_opts\<lparr>ServerKey := ''/missing''\<rparr>))
     = Some (ErrCheckingServerKey ''/missing'' (Some ErrNotExist))"
    by (simp add: Validate_flat constraint_defs demo_defs)
  have e2: "fst (Validate demo_env (demo_opts\<lparr>ServerKey := ''/ok'', ServerCert := ''/missing''\<rparr>))
     = Some (ErrCheckingServerCert ''/missing'' (Some ErrNotExist))"
    by (simp add: Validate_flat constraint_defs demo_defs)
  have e3: "fst (Validate demo_env (demo_opts\<lparr>ServerCaCert := ''/missing''\<rparr>))
     = Some (ErrCheckingServerCaCert ''/missing'' (Some ErrNotExist))"
    by (simp add: Validate_flat constraint_defs demo_defs)
  have e4: "fst (Validate demo_env (demo_opts\<lparr>ClusterKey := ''/missing''\<rparr>))
     = Some (ErrCheckingClusterKey ''/missing'' (Some ErrNotExist))"
    by (simp add: Validate_flat constraint_defs demo_defs)
  have e5: "fst (Validate demo_env (demo_opts\<lparr>ClusterKey := ''/ok'', ClusterCert := ''/missing''\<rparr>))
     = Some (ErrCheckingClusterCert ''/missing'' (Some ErrNotExist))"
    by (simp add: Validate_flat constraint_defs demo_defs)
  have e6: "fst (Validate demo_env (demo_opts\<lparr>ClusterCaCert := ''/missing''\<rparr>))
     = Some (ErrCheckingClusterCaCert ''/missing'' (Some ErrNotExist))"
    by (simp add: Validate_flat constraint_defs demo_defs)
  have e7: "fst (Validate demo_env (demo_opts\<lparr>KubeconfigPath := ''/missing''\<rparr>))
     = Some (ErrCheckingKubeconfigPath ''/missing'' (Some ErrNotExist))"
    by (simp add: Validate_flat constraint_defs demo_defs)
  have missing: "Stat demo_env ''/missing'' = Some ErrNotExist"
  proof -
    note t1 = Validate_file_checks_fail_on_not_exist_only
                [OF e1, of "''/missing''" "Some ErrNotExist"]
      and t2 = Validate_file_checks_fail_on_not_exist_only
                [OF e2, of "''/missing''" "Some ErrNotExist"]
      and t3 = Validate_file_checks_fail_on_not_exist_only
                [OF e3, of "''/missing''" "Some ErrNotExist"]
      and t4 = Validate_file_checks_fail_on_not_exist_only
                [OF e4, of "''/missing''" "Some ErrNotExist"]
      and t5 = Validate_file_checks_fail_on_not_exist_only
                [OF e5, of "''/missing''" "Some ErrNotExist"]
      and t6 = Validate_file_checks_fail_on_not_exist_only
                [OF e6, of "''/missing''" "Some ErrNotExist"]
      and t7 = Validate_file_checks_fail_on_not_exist_only
                [OF e7, of "''/missing''" "Some ErrNotExist"]
    from t1 t2 t3 t4 t5 t6 t7 show ?thesis by blast
  qed
  have denied: "Stat demo_env ''/denied'' = Some ErrPermission"
    by (simp add: demo_env_def)
  have acc: "fst (Validate demo_env
        (demo_opts\<lparr>ServerKey := ''/denied'', ServerCert := ''/denied'',
                    ServerCaCert := ''/denied'', ClusterKey := ''/denied'',
                    ClusterCert := ''/denied'', ClusterCaCert := ''/denied'',
                    KubeconfigPath := ''/denied''\<rparr>)) = None"
    by (simp add: Validate_accepts_iff demo_defs)
  from e1 e2 e3 e4 e5 e6 e7 missing denied acc show ?thesis by (intro conjI)
qed

text \<open>
  C10. With the lease controller disabled, the result of \<open>Validate\<close> depends neither on the
  lease label nor on the label parser: whatever the label, \<open>Validate\<close> returns what it
  returns for any other label, so it accepts whenever the other constraints pass.
\<close>

theorem Validate_lease_label_unused_when_disabled:
  assumes "\<not> EnableLeaseController opts"
  shows "fst (Validate (e\<lparr>ParseLabels := f\<rparr>) (opts\<lparr>LeaseLabel := l\<rparr>)) = fst (Validate e opts)"
proof -
  have "constraints_in_code_order (e\<lparr>ParseLabels := f\<rparr>) (opts\<lparr>LeaseLabel := l\<rparr>)
      = constraints_in_code_order e opts"
    using assms by (simp add: constraint_defs split del: if_split cong: if_cong)
  then show ?thesis by (simp only: Validate_flat)
qed

theorem Validate_lease_label_unused_when_disabled_witness:
  "\<not> EnableLeaseController demo_opts
   \<and> ParseLabels (demo_env\<lparr>ParseLabels := (\<lambda>s. Some ''unparsable'')\<rparr>) ''=,='' \<noteq> None
   \<and> fst (Validate (demo_env\<lparr>ParseLabels := (\<lambda>s. Some ''unparsable'')\<rparr>)
            (demo_opts\<lparr>LeaseLabel := ''=,=''\<rparr>)) = None"
proof -
  have off: "\<not> EnableLeaseController demo_opts" by (simp add: demo_defs)
  from off demo_opts_accepted
    Validate_lease_label_unused_when_disabled
      [OF off, of "\<lambda>s. Some ''unparsable''" demo_env "''=,=''"]
  show ?thesis by simp
qed

end
